theory Spec2Isabelle
  imports Main
begin

section \<open>The test executor of openhtf (src/openhtf/exe/__init__.py)\<close>

text \<open>
  The module defines one class, \<^verbatim>\<open>TestExecutor\<close>, a killable thread that runs one test:
  it waits for the start trigger, initialises plugs, executes the phases, runs the teardown
  phase and finalizes the test record. The controller talks to it through \<^verbatim>\<open>Start\<close>,
  \<^verbatim>\<open>Stop\<close>, \<^verbatim>\<open>Finalize\<close>, \<^verbatim>\<open>Wait\<close> and \<^verbatim>\<open>GetState\<close>.

  The embedding keeps the object's attributes in a record, every exception as a value of
  \<open>error\<close>, and the worker procedure \<^verbatim>\<open>_ThreadProc\<close> as a step function over program
  points named after the source lines, so that calls of the controller can be interleaved
  with the worker. A region the source runs under \<^verbatim>\<open>self._lock\<close> is one step.
\<close>

subsection \<open>Exceptions, outcomes and attributes\<close>

text \<open>
  \<open>TestStopError\<close> and \<open>UnfinalizedTestError\<close> are the module's own exception classes
  (lines 41 to 46). The others are raised by Python itself (\<open>AttributeError\<close> on reading
  an attribute that was never assigned or an attribute of \<^verbatim>\<open>None\<close>, \<open>RuntimeError\<close> by
  \<^verbatim>\<open>threading\<close>, \<open>KeyboardInterrupt\<close>) or by the collaborators the module calls.
\<close>

datatype error =
    TestStopError
  | UnfinalizedTestError
  | AttributeError
  | RuntimeError
  | KeyboardInterrupt
  | TestAlreadyFinalized
  | PlugInitError
  | ThreadTerminationError

text \<open>
  Modelled from the spec: \<^verbatim>\<open>test_record.Outcome\<close> is not under src/. The spec lists the
  terminal results PASS, FAIL, ERROR and ABORTED.
\<close>

datatype Outcome = PASS | FAIL | ERROR | ABORTED

text \<open>
  An instance attribute of a Python object is in one of three conditions: never assigned
  (reading it raises \<open>AttributeError\<close>), bound to \<^verbatim>\<open>None\<close>, or bound to an object.
  \<^verbatim>\<open>__init__\<close> assigns neither \<^verbatim>\<open>_exit_stack\<close> nor \<^verbatim>\<open>_test_state\<close>; \<^verbatim>\<open>_ThreadProc\<close> does.
\<close>

datatype 'a attr = Unassigned | PyNone | Ref 'a

subsection \<open>Phase descriptors and the configuration\<close>

record PhaseOptions =
  timeout_s :: "int option"

record PhaseDescriptor =
  func :: string
  options :: PhaseOptions

text \<open>The configuration key declared at line 37, with its default value 3.\<close>

record conf =
  teardown_timeout_s :: int

definition default_conf :: conf where
  "default_conf = \<lparr>teardown_timeout_s = 3\<rparr>"

text \<open>
  The \<^verbatim>\<open>teardown_function\<close> argument of the constructor is a plain phase function or an
  already built phase descriptor.

  Modelled from the spec: \<^verbatim>\<open>openhtf.PhaseDescriptor.WrapOrCopy\<close> is not under src/. It wraps
  a plain function into a descriptor with default options (no timeout) and copies a
  descriptor, keeping the options of its declaration.
\<close>

datatype teardown_arg = Function string | Descriptor PhaseDescriptor

fun WrapOrCopy :: "teardown_arg \<Rightarrow> PhaseDescriptor" where
  "WrapOrCopy (Function f) = \<lparr>func = f, options = \<lparr>timeout_s = None\<rparr>\<rparr>"
| "WrapOrCopy (Descriptor d) = d"

record TestDescriptor =
  descriptor_name :: string
  phases :: "PhaseDescriptor list"

subsection \<open>The test state\<close>

text \<open>
  Modelled from the spec: \<^verbatim>\<open>test_state.TestState\<close> is not under src/. The spec gives its
  interface: \<^verbatim>\<open>SetStatusRunning()\<close>, \<^verbatim>\<open>SetStatusFromPhaseOutcome(outcome) -> bool\<close>
  (true = stop early), \<^verbatim>\<open>Finalize(outcome = derived-or-explicit)\<close>, which fails if the state
  is already finalized (the docstring at lines 82 to 87 names the exception,
  \<^verbatim>\<open>TestAlreadyFinalized\<close>), and the query \<^verbatim>\<open>is_finalized\<close>. The state is finalized exactly
  when its outcome is set.
\<close>

record TestState =
  dut_id :: "string option"
  running :: bool
  derived :: Outcome
  outcome :: "Outcome option"

record PhaseOutcome =
  phase_status :: Outcome
  stops_test :: bool

definition new_TestState :: "TestDescriptor \<Rightarrow> TestState" where
  "new_TestState d = \<lparr>dut_id = None, running = False, derived = PASS, outcome = None\<rparr>"

definition is_finalized :: "TestState \<Rightarrow> bool" where
  "is_finalized ts = (outcome ts \<noteq> None)"

definition TestStarted :: "string option \<Rightarrow> TestState \<Rightarrow> TestState" where
  "TestStarted dut ts = ts\<lparr>dut_id := dut\<rparr>"

definition SetStatusRunning :: "TestState \<Rightarrow> TestState" where
  "SetStatusRunning ts = ts\<lparr>running := True\<rparr>"

definition SetStatusFromPhaseOutcome :: "PhaseOutcome \<Rightarrow> TestState \<Rightarrow> bool \<times> TestState" where
  "SetStatusFromPhaseOutcome po ts = (stops_test po, ts\<lparr>derived := phase_status po\<rparr>)"

definition TestState_Finalize :: "Outcome option \<Rightarrow> TestState \<Rightarrow> error + TestState" where
  "TestState_Finalize arg ts =
     (if is_finalized ts then Inl TestAlreadyFinalized
      else Inr (ts\<lparr>outcome := Some (case arg of None \<Rightarrow> derived ts | Some x \<Rightarrow> x)\<rparr>))"

subsection \<open>What a run leaves behind, and what its surroundings decide\<close>

text \<open>
  The two release actions the worker registers on its exit stack: the plug manager's
  \<^verbatim>\<open>TearDownPlugs\<close> (line 146) and the phase executor's \<^verbatim>\<open>Stop\<close> (line 167).
\<close>

datatype release = TearDownPlugs | ExecutorStop

text \<open>
  The calls a run makes on its collaborators, in the order they happen. \<open>Released\<close> is a
  release action invoked by the exit stack; \<open>BestEffortTearDown\<close> is the direct call of
  \<^verbatim>\<open>TearDownPlugs\<close> at line 142.
\<close>

datatype event =
    PlugsInitialized
  | BestEffortTearDown
  | Registered release
  | Released release
  | PhaseReported PhaseOutcome
  | TeardownExecuted PhaseDescriptor
  | Finalized Outcome
  | KillRequested

text \<open>
  Modelled from the spec: \<^verbatim>\<open>phase_executor.PhaseExecutor\<close> and \<^verbatim>\<open>plugs.PlugManager\<close> are not
  under src/. \<^verbatim>\<open>ExecutePhases\<close> produces a lazy, finite sequence of phase outcomes, and
  pulling the next one may raise instead; \<^verbatim>\<open>InitializePlugs\<close> may fail with a
  \<open>PlugInitError\<close>; \<^verbatim>\<open>TearDownPlugs\<close> and the executor's \<^verbatim>\<open>Stop\<close> never raise. What the
  phases and the plugs do is not decided by the module, so it is a parameter of a run.
\<close>

datatype phase_yield = Yields PhaseOutcome | Raises error

record environment =
  plug_init_succeeds :: bool
  phase_results :: "phase_yield list"

subsection \<open>The executor object and its worker thread\<close>

text \<open>
  The program points of \<^verbatim>\<open>_ThreadProc\<close> (with \<^verbatim>\<open>_ExecuteTestPhases\<close> inlined), named after the
  line each step starts at. \<open>L175\<close> carries what \<^verbatim>\<open>ExecutePhases\<close> has still to yield.
  \<open>WithExit r\<close> is the exit of the \<^verbatim>\<open>with contextlib.ExitStack()\<close> block, with the exception
  \<open>r\<close> in flight, and \<open>Terminated r\<close> the end of the thread.
\<close>

datatype pc =
    NotStarted
  | L114
  | L119
  | L128
  | L133
  | L134
  | L136
  | L172
  | L175 "phase_yield list"
  | L189
  | WithExit "error option"
  | Terminated "error option"

text \<open>
  The attributes of the object (\<open>teardown_function\<close> to \<open>output_thread\<close>), the callbacks
  held by the one \<^verbatim>\<open>ExitStack\<close> object of the run (most recently registered first; the
  local variable \<^verbatim>\<open>exit_stack\<close> and the attribute \<^verbatim>\<open>_exit_stack\<close> are two names of it), the
  worker's program point, whether \<^verbatim>\<open>Kill()\<close> has asked for the worker's termination and the
  request has not reached it yet, and the events so far.
\<close>

record TestExecutor =
  teardown_function :: "PhaseDescriptor option"
  test_descriptor :: TestDescriptor
  test_start :: "string option"
  exit_stack :: "unit attr"
  test_state :: "TestState attr"
  output_thread :: "unit attr"
  callbacks :: "release list"
  pc :: pc
  kill_requested :: bool
  events :: "event list"

text \<open>
  \<^verbatim>\<open>__init__\<close> (lines 53 to 65). A supplied teardown function (a function or a
  descriptor, a true value either way) is wrapped or copied and its timeout is
  overwritten with the configured one. \<^verbatim>\<open>_exit_stack\<close>, \<^verbatim>\<open>_test_state\<close> and
  \<^verbatim>\<open>_output_thread\<close> are not assigned here.
\<close>

definition TestExecutor_init ::
  "conf \<Rightarrow> TestDescriptor \<Rightarrow> string option \<Rightarrow> teardown_arg option \<Rightarrow> TestExecutor" where
  "TestExecutor_init cfg test_descriptor_arg test_start_arg teardown_function_arg =
     \<lparr>teardown_function =
        (case teardown_function_arg of
           None \<Rightarrow> None
         | Some f \<Rightarrow>
             Some ((WrapOrCopy f)\<lparr>options :=
               (options (WrapOrCopy f))\<lparr>timeout_s := Some (teardown_timeout_s cfg)\<rparr>\<rparr>)),
      test_descriptor = test_descriptor_arg,
      test_start = test_start_arg,
      exit_stack = Unassigned,
      test_state = Unassigned,
      output_thread = Unassigned,
      callbacks = [],
      pc = NotStarted,
      kill_requested = False,
      events = []\<rparr>"

text \<open>
  \<^verbatim>\<open>contextlib.ExitStack\<close> is the library's (contextlib2, the backport of Python's own):
  \<^verbatim>\<open>callback\<close> adds a release action on top of the stack, and \<^verbatim>\<open>close\<close>, like leaving the
  \<^verbatim>\<open>with\<close> block, takes the actions off the stack one by one, the last registered first,
  and invokes each; the stack is empty afterwards and can be used again.
\<close>

definition ExitStack_callback :: "release \<Rightarrow> TestExecutor \<Rightarrow> TestExecutor" where
  "ExitStack_callback a s = s\<lparr>callbacks := a # callbacks s, events := events s @ [Registered a]\<rparr>"

definition ExitStack_close :: "TestExecutor \<Rightarrow> TestExecutor" where
  "ExitStack_close s = s\<lparr>events := events s @ map Released (callbacks s), callbacks := []\<rparr>"

text \<open>
  One turn of the loop that unwinds the stack when the \<^verbatim>\<open>with\<close> block is left: the top
  action is taken off and invoked. \<open>None\<close> when the stack is empty and the loop ends.
\<close>

definition ExitStack_exit_turn :: "TestExecutor \<Rightarrow> TestExecutor option" where
  "ExitStack_exit_turn s =
     (case callbacks s of
        [] \<Rightarrow> None
      | a # rest \<Rightarrow> Some (s\<lparr>callbacks := rest, events := events s @ [Released a]\<rparr>))"

text \<open>
  Modelled from the spec: \<^verbatim>\<open>threads.KillableThread.Kill\<close> is not under src/. It asks for an
  exception to be raised in the worker; the request is best-effort and lands later, at a
  point the caller does not choose.
\<close>

definition Kill :: "TestExecutor \<Rightarrow> TestExecutor" where
  "Kill s = s\<lparr>kill_requested := True, events := events s @ [KillRequested]\<rparr>"

text \<open>\<^verbatim>\<open>Start\<close> (lines 67 to 69): \<^verbatim>\<open>threading\<close> refuses to start a thread twice.\<close>

definition Start :: "TestExecutor \<Rightarrow> error option \<times> TestExecutor" where
  "Start s = (if pc s = NotStarted then (None, s\<lparr>pc := L114\<rparr>) else (Some RuntimeError, s))"

text \<open>
  \<^verbatim>\<open>Stop\<close> (lines 71 to 77). Reading \<^verbatim>\<open>self._exit_stack\<close> raises when the attribute was never
  assigned; an \<^verbatim>\<open>ExitStack\<close> object is true, \<^verbatim>\<open>None\<close> is false. The attribute itself is
  never written here. The check and the close run under the lock and are one step.
\<close>

definition Stop :: "TestExecutor \<Rightarrow> error option \<times> TestExecutor" where
  "Stop s =
     (case exit_stack s of
        Unassigned \<Rightarrow> (Some AttributeError, s)
      | PyNone \<Rightarrow> (None, Kill s)
      | Ref _ \<Rightarrow> (None, Kill (ExitStack_close s)))"

text \<open>\<^verbatim>\<open>Finalize\<close> (lines 79 to 96).\<close>

definition Finalize :: "TestExecutor \<Rightarrow> (error + TestState) \<times> TestExecutor" where
  "Finalize s =
     (case test_state s of
        Unassigned \<Rightarrow> (Inl AttributeError, s)
      | PyNone \<Rightarrow> (Inl TestStopError, s)
      | Ref ts \<Rightarrow>
          (if \<not> is_finalized ts then
             (case TestState_Finalize (Some ABORTED) ts of
                Inl e \<Rightarrow> (Inl e, s)
              | Inr ts' \<Rightarrow>
                  (Inr ts', s\<lparr>test_state := Ref ts', events := events s @ [Finalized ABORTED]\<rparr>))
           else (Inr ts, s)))"

text \<open>
  \<^verbatim>\<open>Wait\<close> (lines 98 to 106). \<^verbatim>\<open>join\<close> raises on a thread that was never started, returns
  once the worker has terminated, and blocks otherwise; the argument says whether a
  \<open>KeyboardInterrupt\<close> arrives while it blocks. The handler calls the test state's
  \<^verbatim>\<open>Finalize\<close> without looking at \<^verbatim>\<open>is_finalized\<close>, and re-raises the interrupt only if
  that call returns.
\<close>

datatype wait_result = StillBlocked | Returned | Raised error

definition Wait :: "bool \<Rightarrow> TestExecutor \<Rightarrow> wait_result \<times> TestExecutor" where
  "Wait interrupt s =
     (case pc s of
        NotStarted \<Rightarrow> (Raised RuntimeError, s)
      | Terminated _ \<Rightarrow> (Returned, s)
      | _ \<Rightarrow>
          (if \<not> interrupt then (StillBlocked, s)
           else
             (case test_state s of
                Unassigned \<Rightarrow> (Raised AttributeError, s)
              | PyNone \<Rightarrow> (Raised AttributeError, s)
              | Ref ts \<Rightarrow>
                  (case TestState_Finalize (Some ABORTED) ts of
                     Inl e \<Rightarrow> (Raised e, s)
                   | Inr ts' \<Rightarrow>
                       (Raised KeyboardInterrupt,
                        s\<lparr>test_state := Ref ts', events := events s @ [Finalized ABORTED]\<rparr>)))))"

text \<open>\<^verbatim>\<open>GetState\<close> (lines 108 to 110): \<^verbatim>\<open>None\<close> is returned as \<open>None\<close>.\<close>

definition GetState :: "TestExecutor \<Rightarrow> (error + TestState option) \<times> TestExecutor" where
  "GetState s =
     (case test_state s of
        Unassigned \<Rightarrow> (Inl AttributeError, s)
      | PyNone \<Rightarrow> (Inr None, s)
      | Ref ts \<Rightarrow> (Inr (Some ts), s))"

subsection \<open>The worker procedure, step by step\<close>

text \<open>An exception raised inside the \<^verbatim>\<open>with\<close> block leaves the block with it in flight.\<close>

definition raise_in_with :: "error \<Rightarrow> TestExecutor \<Rightarrow> TestExecutor" where
  "raise_in_with e s = s\<lparr>pc := WithExit (Some e)\<rparr>"

text \<open>
  \<^verbatim>\<open>_WaitForTestStart\<close> (lines 158 to 162): no trigger, no identifier; otherwise what the
  trigger returns.
\<close>

definition WaitForTestStart :: "TestExecutor \<Rightarrow> string option" where
  "WaitForTestStart s = (case test_start s of None \<Rightarrow> None | Some dut \<Rightarrow> Some dut)"

text \<open>
  \<^verbatim>\<open>_MakePhaseExecutor\<close> (lines 164 to 168): the executor's \<^verbatim>\<open>Stop\<close> is registered on the
  exit stack.
\<close>

definition MakePhaseExecutor :: "TestExecutor \<Rightarrow> TestExecutor" where
  "MakePhaseExecutor s = ExitStack_callback ExecutorStop s"

text \<open>
  One turn of the loop of \<^verbatim>\<open>_ExecuteTestPhases\<close> (lines 174 to 185). The sequence is
  exhausted: the \<^verbatim>\<open>else\<close> of the \<^verbatim>\<open>for\<close> finalizes with the derived outcome. An outcome is
  yielded: it is reported to the test state, and a true answer breaks out of the loop,
  past the \<^verbatim>\<open>else\<close>. The iteration raises: a \<open>KeyboardInterrupt\<close> is caught, the state
  is finalized as ABORTED and the interrupt raised again; anything else is not caught.
\<close>

definition ExecuteTestPhases_loop :: "phase_yield list \<Rightarrow> TestExecutor \<Rightarrow> TestExecutor" where
  "ExecuteTestPhases_loop ys s =
     (case ys of
        [] \<Rightarrow>
          (case test_state s of
             Ref ts \<Rightarrow>
               (case TestState_Finalize None ts of
                  Inl e \<Rightarrow> raise_in_with e s
                | Inr ts' \<Rightarrow>
                    s\<lparr>test_state := Ref ts', events := events s @ [Finalized (derived ts)],
                      pc := L189\<rparr>)
           | _ \<Rightarrow> raise_in_with AttributeError s)
      | Yields po # rest \<Rightarrow>
          (case test_state s of
             Ref ts \<Rightarrow>
               (case SetStatusFromPhaseOutcome po ts of
                  (stop, ts') \<Rightarrow>
                    s\<lparr>test_state := Ref ts', events := events s @ [PhaseReported po],
                      pc := (if stop then L189 else L175 rest)\<rparr>)
           | _ \<Rightarrow> raise_in_with AttributeError s)
      | Raises e # rest \<Rightarrow>
          (if e = KeyboardInterrupt then
             (case test_state s of
                Ref ts \<Rightarrow>
                  (case TestState_Finalize (Some ABORTED) ts of
                     Inl e' \<Rightarrow> raise_in_with e' s
                   | Inr ts' \<Rightarrow>
                       raise_in_with KeyboardInterrupt
                         (s\<lparr>test_state := Ref ts', events := events s @ [Finalized ABORTED]\<rparr>))
              | _ \<Rightarrow> raise_in_with AttributeError s)
           else raise_in_with e s))"

text \<open>
  \<^verbatim>\<open>_ThreadProc\<close> (lines 112 to 156) and the rest of \<^verbatim>\<open>_ExecuteTestPhases\<close> (lines 170 to 190).
  \<^item> \<open>L114\<close>: the three attributes are set to \<^verbatim>\<open>None\<close>.
  \<^item> \<open>L119\<close>: the exit stack is created, the block entered and the stack installed.
  \<^item> \<open>L128\<close>: the test state is created.
  \<^item> \<open>L133\<close>: the start trigger is awaited and its result recorded.
  \<^item> \<open>L134\<close>: the plugs are initialised, or the initialisation raises.
  \<^item> \<open>L136\<close>: under the lock, the guarded check; then both registrations.
  \<^item> \<open>L172\<close>: the status is set to running and \<^verbatim>\<open>ExecutePhases\<close> is called.
  \<^item> \<open>L175\<close>: one turn of the loop.
  \<^item> \<open>L189\<close>: the teardown phase, if there is one; its result is dropped.
  \<^item> \<open>WithExit\<close>: the exit stack unwinds, one release action a step (the worker does not
    hold the lock here, so a \<^verbatim>\<open>Stop()\<close> may close the stack in between); once the stack
    is empty the thread ends, with the exception in flight if there is one.
\<close>

definition ThreadProc_step :: "environment \<Rightarrow> TestExecutor \<Rightarrow> TestExecutor" where
  "ThreadProc_step env s =
     (case pc s of
        NotStarted \<Rightarrow> s
      | L114 \<Rightarrow> s\<lparr>exit_stack := PyNone, test_state := PyNone, output_thread := PyNone, pc := L119\<rparr>
      | L119 \<Rightarrow> s\<lparr>callbacks := [], exit_stack := Ref (), pc := L128\<rparr>
      | L128 \<Rightarrow> s\<lparr>test_state := Ref (new_TestState (test_descriptor s)), pc := L133\<rparr>
      | L133 \<Rightarrow>
          (case test_state s of
             Ref ts \<Rightarrow> s\<lparr>test_state := Ref (TestStarted (WaitForTestStart s) ts), pc := L134\<rparr>
           | _ \<Rightarrow> raise_in_with AttributeError s)
      | L134 \<Rightarrow>
          (case test_state s of
             Ref ts \<Rightarrow>
               (if plug_init_succeeds env
                then s\<lparr>events := events s @ [PlugsInitialized], pc := L136\<rparr>
                else raise_in_with PlugInitError s)
           | _ \<Rightarrow> raise_in_with AttributeError s)
      | L136 \<Rightarrow>
          (case exit_stack s of
             Unassigned \<Rightarrow> raise_in_with AttributeError s
           | PyNone \<Rightarrow>
               (case test_state s of
                  Ref ts \<Rightarrow>
                    raise_in_with TestStopError (s\<lparr>events := events s @ [BestEffortTearDown]\<rparr>)
                | _ \<Rightarrow> raise_in_with AttributeError s)
           | Ref _ \<Rightarrow>
               (case test_state s of
                  Ref ts \<Rightarrow> (MakePhaseExecutor (ExitStack_callback TearDownPlugs s))\<lparr>pc := L172\<rparr>
                | _ \<Rightarrow> raise_in_with AttributeError s))
      | L172 \<Rightarrow>
          (case test_state s of
             Ref ts \<Rightarrow> s\<lparr>test_state := Ref (SetStatusRunning ts), pc := L175 (phase_results env)\<rparr>
           | _ \<Rightarrow> raise_in_with AttributeError s)
      | L175 ys \<Rightarrow> ExecuteTestPhases_loop ys s
      | L189 \<Rightarrow>
          (case teardown_function s of
             None \<Rightarrow> s\<lparr>pc := WithExit None\<rparr>
           | Some teardown \<Rightarrow>
               s\<lparr>events := events s @ [TeardownExecuted teardown], pc := WithExit None\<rparr>)
      | WithExit r \<Rightarrow>
          (case ExitStack_exit_turn s of
             Some s' \<Rightarrow> s'
           | None \<Rightarrow> s\<lparr>pc := Terminated r\<rparr>)
      | Terminated r \<Rightarrow> s)"

text \<open>
  The exception asked for by \<^verbatim>\<open>Kill()\<close> reaches the worker between two of its steps:
  before the \<^verbatim>\<open>with\<close> block is entered it ends the thread at once, inside the block it
  leaves the block (inside the \<^verbatim>\<open>try\<close> of the loop it is no \<open>KeyboardInterrupt\<close>, so the
  handler lets it pass). A request that has not landed when the block is left stays
  pending.
\<close>

definition Kill_lands :: "TestExecutor \<Rightarrow> TestExecutor" where
  "Kill_lands s =
     (if \<not> kill_requested s then s
      else
        (case pc s of
           NotStarted \<Rightarrow> s
         | L114 \<Rightarrow> s\<lparr>pc := Terminated (Some ThreadTerminationError), kill_requested := False\<rparr>
         | L119 \<Rightarrow> s\<lparr>pc := Terminated (Some ThreadTerminationError), kill_requested := False\<rparr>
         | WithExit r \<Rightarrow> s
         | Terminated r \<Rightarrow> s
         | _ \<Rightarrow> (raise_in_with ThreadTerminationError s)\<lparr>kill_requested := False\<rparr>))"

subsection \<open>Runs\<close>

text \<open>
  A run interleaves steps of the worker with calls of the controller and with the landing
  of a kill request, in any order.
\<close>

datatype action =
    CallStart
  | Worker
  | KillLands
  | CallStop
  | CallFinalize
  | CallWait bool
  | CallGetState

definition step :: "environment \<Rightarrow> action \<Rightarrow> TestExecutor \<Rightarrow> TestExecutor" where
  "step env a s =
     (case a of
        CallStart \<Rightarrow> snd (Start s)
      | Worker \<Rightarrow> ThreadProc_step env s
      | KillLands \<Rightarrow> Kill_lands s
      | CallStop \<Rightarrow> snd (Stop s)
      | CallFinalize \<Rightarrow> snd (Finalize s)
      | CallWait interrupt \<Rightarrow> snd (Wait interrupt s)
      | CallGetState \<Rightarrow> snd (GetState s))"

fun run :: "environment \<Rightarrow> action list \<Rightarrow> TestExecutor \<Rightarrow> TestExecutor" where
  "run env [] s = s"
| "run env (a # as) s = run env as (step env a s)"

text \<open>What the events say: the actions registered, the actions released, the outcomes
  the state was finalized with and the teardown phases executed, each in order.\<close>

fun registered :: "event list \<Rightarrow> release list" where
  "registered [] = []"
| "registered (Registered a # es) = a # registered es"
| "registered (e # es) = registered es"

fun released :: "event list \<Rightarrow> release list" where
  "released [] = []"
| "released (Released a # es) = a # released es"
| "released (e # es) = released es"

fun finalizations :: "event list \<Rightarrow> Outcome list" where
  "finalizations [] = []"
| "finalizations (Finalized x # es) = x # finalizations es"
| "finalizations (e # es) = finalizations es"

fun teardowns :: "event list \<Rightarrow> PhaseDescriptor list" where
  "teardowns [] = []"
| "teardowns (TeardownExecuted d # es) = d # teardowns es"
| "teardowns (e # es) = teardowns es"

subsection \<open>What holds along every run\<close>

text \<open>
  Five properties of the state that no step of a run destroys. \<open>cleanup_inv\<close>: what was
  released, followed by what is still on the exit stack, is what was registered, the
  last first; nothing is registered before the guarded check and after it either
  nothing or the two actions; a terminated worker leaves an empty stack.
\<close>

definition before_registration :: "pc \<Rightarrow> bool" where
  "before_registration p =
     (case p of
        NotStarted \<Rightarrow> True | L114 \<Rightarrow> True | L119 \<Rightarrow> True | L128 \<Rightarrow> True
      | L133 \<Rightarrow> True | L134 \<Rightarrow> True | L136 \<Rightarrow> True | _ \<Rightarrow> False)"

definition cleanup_inv :: "TestExecutor \<Rightarrow> bool" where
  "cleanup_inv s =
     (released (events s) @ callbacks s = rev (registered (events s)) \<and>
      (if before_registration (pc s) then registered (events s) = []
       else registered (events s) = [] \<or>
            registered (events s) = [TearDownPlugs, ExecutorStop]) \<and>
      (case pc s of Terminated r \<Rightarrow> callbacks s = [] | _ \<Rightarrow> True))"

definition has_state :: "TestExecutor \<Rightarrow> bool" where
  "has_state s = (case test_state s of Ref ts \<Rightarrow> True | _ \<Rightarrow> False)"

text \<open>
  \<open>installed_inv\<close>: from the installation at line 126 to the guarded check the attribute
  holds the exit stack, and line 142 was never executed.
\<close>

definition installed_inv :: "TestExecutor \<Rightarrow> bool" where
  "installed_inv s =
     (BestEffortTearDown \<notin> set (events s) \<and>
      (case pc s of
         L128 \<Rightarrow> exit_stack s = Ref ()
       | L133 \<Rightarrow> exit_stack s = Ref () \<and> has_state s
       | L134 \<Rightarrow> exit_stack s = Ref () \<and> has_state s
       | L136 \<Rightarrow> exit_stack s = Ref () \<and> has_state s
       | _ \<Rightarrow> True))"

text \<open>
  \<open>finalize_inv\<close>: the finalizations that took effect are the one outcome of the test
  state, if it has one; there is no test state before line 128.
\<close>

definition finalize_inv :: "TestExecutor \<Rightarrow> bool" where
  "finalize_inv s =
     (finalizations (events s) =
        (case test_state s of
           Ref ts \<Rightarrow> (case outcome ts of None \<Rightarrow> [] | Some x \<Rightarrow> [x])
         | _ \<Rightarrow> []) \<and>
      (case pc s of
         NotStarted \<Rightarrow> \<not> has_state s
       | L114 \<Rightarrow> \<not> has_state s
       | L119 \<Rightarrow> \<not> has_state s
       | L128 \<Rightarrow> \<not> has_state s
       | _ \<Rightarrow> True))"

text \<open>\<open>attr_inv\<close>: until the worker has run line 114 to 117 the two attributes do not exist.\<close>

definition attr_inv :: "TestExecutor \<Rightarrow> bool" where
  "attr_inv s =
     (case pc s of
        NotStarted \<Rightarrow> exit_stack s = Unassigned \<and> test_state s = Unassigned
      | L114 \<Rightarrow> exit_stack s = Unassigned \<and> test_state s = Unassigned
      | _ \<Rightarrow> True)"

text \<open>
  \<open>teardown_inv\<close>: the teardown phase has been executed, once, exactly when the worker
  has left line 190 without an exception.
\<close>

definition teardown_inv :: "TestExecutor \<Rightarrow> bool" where
  "teardown_inv s =
     (teardowns (events s) =
        (if pc s = WithExit None \<or> pc s = Terminated None
         then (case teardown_function s of None \<Rightarrow> [] | Some d \<Rightarrow> [d])
         else []))"

subsection \<open>Concrete runs\<close>

text \<open>
  An executor built with the default configuration and a teardown phase declared with a
  timeout of 60 seconds; five surroundings (nothing fails and there is no phase; the
  plugs fail to initialise; the first phase is interrupted from the keyboard; one phase
  is still running; the first phase fails and stops the test); the schedules that take
  the worker to a program point; and schedules in which the controller steps in.
\<close>

definition example_descriptor :: TestDescriptor where
  "example_descriptor = \<lparr>descriptor_name = ''example'', phases = []\<rparr>"

definition example_teardown :: PhaseDescriptor where
  "example_teardown = \<lparr>func = ''teardown'', options = \<lparr>timeout_s = Some 60\<rparr>\<rparr>"

definition example_executor :: TestExecutor where
  "example_executor =
     TestExecutor_init default_conf example_descriptor None (Some (Descriptor example_teardown))"

definition passing_run :: environment where
  "passing_run = \<lparr>plug_init_succeeds = True, phase_results = []\<rparr>"

definition failing_plugs :: environment where
  "failing_plugs = \<lparr>plug_init_succeeds = False, phase_results = []\<rparr>"

definition interrupted_run :: environment where
  "interrupted_run = \<lparr>plug_init_succeeds = True, phase_results = [Raises KeyboardInterrupt]\<rparr>"

definition one_phase_run :: environment where
  "one_phase_run =
     \<lparr>plug_init_succeeds = True,
      phase_results = [Yields \<lparr>phase_status = PASS, stops_test = False\<rparr>]\<rparr>"

definition halting_run :: environment where
  "halting_run =
     \<lparr>plug_init_succeeds = True,
      phase_results = [Yields \<lparr>phase_status = FAIL, stops_test = True\<rparr>,
                       Yields \<lparr>phase_status = PASS, stops_test = False\<rparr>]\<rparr>"

definition to_install :: "action list" where
  "to_install = [CallStart, Worker]"

definition to_guard :: "action list" where
  "to_guard = [CallStart, Worker, Worker, Worker, Worker, Worker]"

definition to_loop :: "action list" where
  "to_loop = [CallStart, Worker, Worker, Worker, Worker, Worker, Worker, Worker]"

definition to_teardown :: "action list" where
  "to_teardown = [CallStart, Worker, Worker, Worker, Worker, Worker, Worker, Worker, Worker]"

definition to_end :: "action list" where
  "to_end = [CallStart, Worker, Worker, Worker, Worker, Worker, Worker, Worker, Worker,
             Worker, Worker, Worker, Worker]"

definition to_interrupt_end :: "action list" where
  "to_interrupt_end =
     [CallStart, Worker, Worker, Worker, Worker, Worker, Worker, Worker, Worker, Worker,
      Worker, Worker]"

definition plug_failure_then_wait :: "action list" where
  "plug_failure_then_wait =
     [CallStart, Worker, Worker, Worker, Worker, Worker, Worker, CallWait False]"

definition stop_before_install :: "action list" where
  "stop_before_install =
     [CallStart, Worker, CallStop, Worker, Worker, Worker, Worker, Worker]"

definition stop_after_install :: "action list" where
  "stop_after_install = [CallStart, Worker, Worker, CallStop, Worker, Worker, Worker]"

definition stopped_in_loop :: "action list" where
  "stopped_in_loop =
     [CallStart, Worker, Worker, Worker, Worker, Worker, Worker, Worker, CallStop, KillLands,
      Worker]"

definition stop_while_unwinding :: "action list" where
  "stop_while_unwinding =
     [CallStart, Worker, Worker, Worker, Worker, Worker, Worker, Worker, Worker, Worker,
      Worker, CallStop, Worker]"

section \<open>Properties\<close>

subsection \<open>Auxiliary facts\<close>

lemma registered_append: "registered (xs @ ys) = registered xs @ registered ys"
  by (induction xs rule: registered.induct) simp_all
lemma released_append: "released (xs @ ys) = released xs @ released ys"
  by (induction xs rule: released.induct) simp_all
lemma finalizations_append: "finalizations (xs @ ys) = finalizations xs @ finalizations ys"
  by (induction xs rule: finalizations.induct) simp_all
lemma teardowns_append: "teardowns (xs @ ys) = teardowns xs @ teardowns ys"
  by (induction xs rule: teardowns.induct) simp_all

lemma released_map_Released: "released (map Released xs) = xs"
  by (induction xs) simp_all
lemma registered_map_Released: "registered (map Released xs) = []"
  by (induction xs) simp_all
lemma finalizations_map_Released: "finalizations (map Released xs) = []"
  by (induction xs) simp_all
lemma teardowns_map_Released: "teardowns (map Released xs) = []"
  by (induction xs) simp_all

lemmas events_simps = registered_append released_append finalizations_append teardowns_append
  released_map_Released registered_map_Released finalizations_map_Released teardowns_map_Released

lemmas op_defs = Start_def Stop_def Finalize_def Wait_def GetState_def Kill_def Kill_lands_def
  ExitStack_close_def ExitStack_exit_turn_def ExitStack_callback_def MakePhaseExecutor_def raise_in_with_def
  TestState_Finalize_def is_finalized_def SetStatusFromPhaseOutcome_def SetStatusRunning_def
  TestStarted_def new_TestState_def

lemma snd_GetState: "snd (GetState s) = s"
  by (simp add: GetState_def split: attr.splits)

lemma run_invariant:
  assumes "P s"
    and "\<And>x. P x \<Longrightarrow> P (snd (Start x))"
    and "\<And>x. P x \<Longrightarrow> P (ThreadProc_step env x)"
    and "\<And>x. P x \<Longrightarrow> P (Kill_lands x)"
    and "\<And>x. P x \<Longrightarrow> P (snd (Stop x))"
    and "\<And>x. P x \<Longrightarrow> P (snd (Finalize x))"
    and "\<And>x i. P x \<Longrightarrow> P (snd (Wait i x))"
  shows "P (run env sched s)"
  using assms(1)
proof (induction sched arbitrary: s)
  case Nil
  then show ?case by simp
next
  case (Cons a sched)
  have "P (step env a s)"
    using Cons.prems assms(2-7) by (cases a) (simp_all add: step_def snd_GetState)
  then show ?case using Cons.IH by simp
qed

lemma invariants_init:
  "cleanup_inv (TestExecutor_init cfg d st td)"
  "installed_inv (TestExecutor_init cfg d st td)"
  "finalize_inv (TestExecutor_init cfg d st td)"
  "attr_inv (TestExecutor_init cfg d st td)"
  "teardown_inv (TestExecutor_init cfg d st td)"
  by (simp_all add: cleanup_inv_def installed_inv_def finalize_inv_def attr_inv_def
      teardown_inv_def has_state_def before_registration_def TestExecutor_init_def)





lemma finalize_inv_loop:
  "finalize_inv s \<Longrightarrow> pc s = L175 ys \<Longrightarrow> finalize_inv (ExecuteTestPhases_loop ys s)"
  by (cases ys; cases "hd ys")
     (auto simp: finalize_inv_def has_state_def ExecuteTestPhases_loop_def op_defs events_simps
        split: attr.splits option.splits)

lemma finalize_inv_run:
  assumes "finalize_inv s"
  shows "finalize_inv (run env sched s)"
  using assms
proof (rule run_invariant)
  fix x assume "finalize_inv x"
  then show "finalize_inv (ThreadProc_step env x)"
    using finalize_inv_loop [of x]
    by (cases "pc x")
       (auto simp: finalize_inv_def has_state_def ThreadProc_step_def op_defs events_simps
          split: attr.splits option.splits list.splits)
next
  fix x assume "finalize_inv x"
  then show "finalize_inv (snd (Start x))"
    by (cases "pc x") (auto simp: finalize_inv_def has_state_def op_defs)
next
  fix x assume "finalize_inv x"
  then show "finalize_inv (Kill_lands x)"
    by (cases "pc x") (auto simp: finalize_inv_def has_state_def op_defs)
next
  fix x assume "finalize_inv x"
  then show "finalize_inv (snd (Stop x))"
    by (cases "pc x")
       (auto simp: finalize_inv_def has_state_def op_defs events_simps split: attr.splits)
next
  fix x assume "finalize_inv x"
  then show "finalize_inv (snd (Finalize x))"
    by (cases "pc x")
       (auto simp: finalize_inv_def has_state_def op_defs events_simps split: attr.splits option.splits)
next
  fix x i assume "finalize_inv x"
  then show "finalize_inv (snd (Wait i x))"
    by (cases "pc x")
       (auto simp: finalize_inv_def has_state_def op_defs events_simps split: attr.splits option.splits)
qed

lemma attr_inv_loop:
  "attr_inv s \<Longrightarrow> pc s = L175 ys \<Longrightarrow> attr_inv (ExecuteTestPhases_loop ys s)"
  by (cases ys; cases "hd ys")
     (auto simp: attr_inv_def ExecuteTestPhases_loop_def op_defs split: attr.splits)

lemma attr_inv_run:
  assumes "attr_inv s"
  shows "attr_inv (run env sched s)"
  using assms
proof (rule run_invariant)
  fix x assume "attr_inv x"
  then show "attr_inv (ThreadProc_step env x)"
    using attr_inv_loop [of x]
    by (cases "pc x")
       (auto simp: attr_inv_def ThreadProc_step_def op_defs
          split: attr.splits option.splits list.splits)
next
  fix x assume "attr_inv x"
  then show "attr_inv (snd (Start x))"
    by (cases "pc x") (auto simp: attr_inv_def op_defs)
next
  fix x assume "attr_inv x"
  then show "attr_inv (Kill_lands x)"
    by (cases "pc x") (auto simp: attr_inv_def op_defs)
next
  fix x assume "attr_inv x"
  then show "attr_inv (snd (Stop x))"
    by (cases "pc x") (auto simp: attr_inv_def op_defs split: attr.splits)
next
  fix x assume "attr_inv x"
  then show "attr_inv (snd (Finalize x))"
    by (cases "pc x") (auto simp: attr_inv_def op_defs split: attr.splits)
next
  fix x i assume "attr_inv x"
  then show "attr_inv (snd (Wait i x))"
    by (cases "pc x") (auto simp: attr_inv_def op_defs split: attr.splits)
qed

lemma teardown_inv_loop:
  "teardown_inv s \<Longrightarrow> pc s = L175 ys \<Longrightarrow> teardown_inv (ExecuteTestPhases_loop ys s)"
  by (cases ys; cases "hd ys")
     (auto simp: teardown_inv_def ExecuteTestPhases_loop_def op_defs events_simps split: attr.splits)

lemma teardown_inv_run:
  assumes "teardown_inv s"
  shows "teardown_inv (run env sched s)"
  using assms
proof (rule run_invariant)
  fix x assume "teardown_inv x"
  then show "teardown_inv (ThreadProc_step env x)"
    using teardown_inv_loop [of x]
    by (cases "pc x")
       (auto simp: teardown_inv_def ThreadProc_step_def op_defs events_simps
          split: attr.splits option.splits list.splits)
next
  fix x assume "teardown_inv x"
  then show "teardown_inv (snd (Start x))"
    by (cases "pc x") (auto simp: teardown_inv_def op_defs)
next
  fix x assume "teardown_inv x"
  then show "teardown_inv (Kill_lands x)"
    by (cases "pc x") (auto simp: teardown_inv_def op_defs)
next
  fix x assume "teardown_inv x"
  then show "teardown_inv (snd (Stop x))"
    by (cases "pc x") (auto simp: teardown_inv_def op_defs events_simps split: attr.splits)
next
  fix x assume "teardown_inv x"
  then show "teardown_inv (snd (Finalize x))"
    by (cases "pc x") (auto simp: teardown_inv_def op_defs events_simps split: attr.splits)
next
  fix x i assume "teardown_inv x"
  then show "teardown_inv (snd (Wait i x))"
    by (cases "pc x") (auto simp: teardown_inv_def op_defs events_simps split: attr.splits)
qed

lemma teardown_function_run: "teardown_function (run env sched s) = teardown_function s"
proof (rule run_invariant [where P = "\<lambda>x::TestExecutor. teardown_function x = teardown_function s"])
  fix x :: TestExecutor assume "teardown_function x = teardown_function s"
  then show "teardown_function (ThreadProc_step env x) = teardown_function s"
    by (cases "pc x")
       (auto simp: ThreadProc_step_def ExecuteTestPhases_loop_def op_defs
          split: attr.splits option.splits list.splits phase_yield.splits)
qed (auto simp: op_defs split: attr.splits pc.splits)

lemmas run_defs = example_descriptor_def example_teardown_def example_executor_def
  passing_run_def failing_plugs_def interrupted_run_def one_phase_run_def halting_run_def
  to_install_def to_guard_def to_loop_def to_teardown_def to_end_def to_interrupt_end_def
  plug_failure_then_wait_def stop_before_install_def stop_after_install_def
  stopped_in_loop_def stop_while_unwinding_def
  default_conf_def TestExecutor_init_def step_def ThreadProc_step_def
  ExecuteTestPhases_loop_def WaitForTestStart_def op_defs

lemma lost_race_stays:
  assumes "(pc s = WithExit r \<or> pc s = Terminated r) \<and> BestEffortTearDown \<in> set (events s)"
  shows "(pc (run env sched s) = WithExit r \<or> pc (run env sched s) = Terminated r) \<and>
         BestEffortTearDown \<in> set (events (run env sched s))"
  using assms
proof (rule run_invariant [where P = "\<lambda>x::TestExecutor.
          (pc x = WithExit r \<or> pc x = Terminated r) \<and> BestEffortTearDown \<in> set (events x)"])
  fix x :: TestExecutor
  assume "(pc x = WithExit r \<or> pc x = Terminated r) \<and> BestEffortTearDown \<in> set (events x)"
  then show "(pc (ThreadProc_step env x) = WithExit r \<or>
              pc (ThreadProc_step env x) = Terminated r) \<and>
             BestEffortTearDown \<in> set (events (ThreadProc_step env x))"
    by (auto simp: ThreadProc_step_def op_defs split: list.splits)
qed (auto simp: op_defs split: attr.splits)

lemma worker_finalizes_where:
  assumes "finalizations (events (ThreadProc_step env x)) \<noteq> finalizations (events x)"
  shows "pc x = L175 [] \<or> (\<exists>rest. pc x = L175 (Raises KeyboardInterrupt # rest))"
proof (cases "pc x")
  case (L175 ys)
  show ?thesis
  proof (cases ys)
    case Nil
    with L175 show ?thesis by simp
  next
    case (Cons y rest)
    with L175 assms show ?thesis
      by (cases y)
         (auto simp: ThreadProc_step_def ExecuteTestPhases_loop_def op_defs events_simps
            split: attr.splits if_splits)
  qed
qed (use assms in \<open>auto simp: ThreadProc_step_def op_defs events_simps
        split: attr.splits option.splits list.splits if_splits\<close>)

subsection \<open>The cleanup stack\<close>



subsection \<open>The guarded check and the race with a stop\<close>

text \<open>
  Claim C4, as stated, does not hold: when the worker does not find the stack cleared at
  the guarded check, it need not be that the installation came first and \<^verbatim>\<open>Stop()\<close>
  closed the installed stack. Here \<^verbatim>\<open>Stop()\<close> runs before the installation, while the
  attribute is \<^verbatim>\<open>None\<close>: it closes nothing and asks for the kill. The kill has not landed
  when the worker installs the stack, passes the guarded check, registers both actions
  and goes on to phase execution, with nothing released.
\<close>

theorem stop_before_installation_passes_guard:
  "pc (run passing_run to_install example_executor) = L119 \<and>
   exit_stack (run passing_run to_install example_executor) = PyNone \<and>
   Stop (run passing_run to_install example_executor) =
     (None, Kill (run passing_run to_install example_executor)) \<and>
   pc (run passing_run stop_before_install example_executor) = L172 \<and>
   exit_stack (run passing_run stop_before_install example_executor) = Ref () \<and>
   callbacks (run passing_run stop_before_install example_executor) =
     [ExecutorStop, TearDownPlugs] \<and>
   events (run passing_run stop_before_install example_executor) =
     [KillRequested, PlugsInitialized, Registered TearDownPlugs, Registered ExecutorStop]"
  by (simp add: run_defs)

text \<open>
  Claim C4, amended. If at the guarded check the worker finds the \<^verbatim>\<open>_exit_stack\<close>
  attribute absent, it tears down the plugs and fails with \<open>TestStopError\<close>, and whatever
  happens next the worker only unwinds and ends with that error: phase execution is not
  reached. Otherwise it registers the plug teardown and the executor's \<^verbatim>\<open>Stop\<close> and goes
  on to phase execution. A \<^verbatim>\<open>Stop()\<close> that finds the stack installed closes it: every
  action on it is released, the last registered first. A \<^verbatim>\<open>Stop()\<close> that runs before the
  installation finds \<^verbatim>\<open>None\<close>, closes and releases nothing and leaves the attribute as it
  is, and the worker installs the stack afterwards.
\<close>

theorem guarded_check_and_stop:
  "(pc s = L136 \<and> exit_stack s = PyNone \<and> has_state s \<longrightarrow>
      BestEffortTearDown \<in> set (events (run env (Worker # sched) s)) \<and>
      (pc (run env (Worker # sched) s) = WithExit (Some TestStopError) \<or>
       pc (run env (Worker # sched) s) = Terminated (Some TestStopError))) \<and>
   (pc s = L136 \<and> exit_stack s = Ref () \<and> has_state s \<longrightarrow>
      pc (ThreadProc_step env s) = L172 \<and>
      registered (events (ThreadProc_step env s)) =
        registered (events s) @ [TearDownPlugs, ExecutorStop]) \<and>
   (exit_stack s = Ref () \<longrightarrow>
      fst (Stop s) = None \<and> callbacks (snd (Stop s)) = [] \<and>
      released (events (snd (Stop s))) = released (events s) @ callbacks s) \<and>
   (exit_stack s = PyNone \<longrightarrow>
      fst (Stop s) = None \<and> callbacks (snd (Stop s)) = callbacks s \<and>
      released (events (snd (Stop s))) = released (events s) \<and>
      exit_stack (snd (Stop s)) = PyNone \<and>
      (pc s = L119 \<longrightarrow> exit_stack (ThreadProc_step env (snd (Stop s))) = Ref ()))"
proof -
  have a: "BestEffortTearDown \<in> set (events (run env (Worker # sched) s)) \<and>
      (pc (run env (Worker # sched) s) = WithExit (Some TestStopError) \<or>
       pc (run env (Worker # sched) s) = Terminated (Some TestStopError))"
    if "pc s = L136 \<and> exit_stack s = PyNone \<and> has_state s"
  proof -
    have "(pc (ThreadProc_step env s) = WithExit (Some TestStopError) \<or>
           pc (ThreadProc_step env s) = Terminated (Some TestStopError)) \<and>
          BestEffortTearDown \<in> set (events (ThreadProc_step env s))"
      using that by (auto simp: ThreadProc_step_def has_state_def op_defs split: attr.splits)
    from lost_race_stays [OF this, of env sched] show ?thesis
      by (simp add: step_def)
  qed
  have b: "pc (ThreadProc_step env s) = L172 \<and>
      registered (events (ThreadProc_step env s)) =
        registered (events s) @ [TearDownPlugs, ExecutorStop]"
    if "pc s = L136 \<and> exit_stack s = Ref () \<and> has_state s"
    using that
    by (auto simp: ThreadProc_step_def has_state_def op_defs events_simps split: attr.splits)
  have c: "fst (Stop s) = None \<and> callbacks (snd (Stop s)) = [] \<and>
      released (events (snd (Stop s))) = released (events s) @ callbacks s"
    if "exit_stack s = Ref ()"
    using that by (simp add: op_defs events_simps)
  have d: "fst (Stop s) = None \<and> callbacks (snd (Stop s)) = callbacks s \<and>
      released (events (snd (Stop s))) = released (events s) \<and>
      exit_stack (snd (Stop s)) = PyNone \<and>
      (pc s = L119 \<longrightarrow> exit_stack (ThreadProc_step env (snd (Stop s))) = Ref ())"
    if "exit_stack s = PyNone"
    using that by (simp add: op_defs events_simps ThreadProc_step_def)
  from a b c d show ?thesis by blast
qed

text \<open>
  The state of the first part, the worker at the guarded check with the attribute
  \<^verbatim>\<open>None\<close>, is written down directly: no run leads to it (claim C10 below).
\<close>

theorem guarded_check_and_stop_witness:
  "pc ((run passing_run to_guard example_executor)\<lparr>exit_stack := PyNone\<rparr>) = L136 \<and>
   exit_stack ((run passing_run to_guard example_executor)\<lparr>exit_stack := PyNone\<rparr>) = PyNone \<and>
   has_state ((run passing_run to_guard example_executor)\<lparr>exit_stack := PyNone\<rparr>) \<and>
   BestEffortTearDown \<in> set (events (run passing_run [Worker, Worker]
      ((run passing_run to_guard example_executor)\<lparr>exit_stack := PyNone\<rparr>))) \<and>
   pc (run passing_run [Worker, Worker]
      ((run passing_run to_guard example_executor)\<lparr>exit_stack := PyNone\<rparr>)) =
     Terminated (Some TestStopError) \<and>
   pc (run passing_run to_guard example_executor) = L136 \<and>
   exit_stack (run passing_run to_guard example_executor) = Ref () \<and>
   has_state (run passing_run to_guard example_executor) \<and>
   pc (ThreadProc_step passing_run (run passing_run to_guard example_executor)) = L172 \<and>
   callbacks (snd (Stop (run passing_run to_loop example_executor))) = [] \<and>
   released (events (snd (Stop (run passing_run to_loop example_executor)))) =
     [ExecutorStop, TearDownPlugs] \<and>
   pc (run passing_run to_install example_executor) = L119 \<and>
   exit_stack (run passing_run to_install example_executor) = PyNone \<and>
   released (events (snd (Stop (run passing_run to_install example_executor)))) = [] \<and>
   exit_stack (ThreadProc_step passing_run
      (snd (Stop (run passing_run to_install example_executor)))) = Ref ()"
proof -
  have h1: "pc ((run passing_run to_guard example_executor)\<lparr>exit_stack := PyNone\<rparr>) = L136 \<and>
   exit_stack ((run passing_run to_guard example_executor)\<lparr>exit_stack := PyNone\<rparr>) = PyNone \<and>
   has_state ((run passing_run to_guard example_executor)\<lparr>exit_stack := PyNone\<rparr>)"
    by (simp add: run_defs has_state_def)
  have t1: "pc (run passing_run [Worker, Worker]
      ((run passing_run to_guard example_executor)\<lparr>exit_stack := PyNone\<rparr>)) =
     Terminated (Some TestStopError)"
    by (simp add: run_defs)
  have h2: "pc (run passing_run to_guard example_executor) = L136 \<and>
   exit_stack (run passing_run to_guard example_executor) = Ref () \<and>
   has_state (run passing_run to_guard example_executor)"
    by (simp add: run_defs has_state_def)
  have h3: "exit_stack (run passing_run to_loop example_executor) = Ref ()"
    by (simp add: run_defs)
  have r3: "released (events (run passing_run to_loop example_executor)) = [] \<and>
            callbacks (run passing_run to_loop example_executor) = [ExecutorStop, TearDownPlugs]"
    by (simp add: run_defs)
  have h4: "pc (run passing_run to_install example_executor) = L119 \<and>
            exit_stack (run passing_run to_install example_executor) = PyNone"
    by (simp add: run_defs)
  have r4: "released (events (run passing_run to_install example_executor)) = []"
    by (simp add: run_defs)
  show ?thesis
    using h1 t1 h2 h3 r3 h4 r4
      guarded_check_and_stop
        [of "(run passing_run to_guard example_executor)\<lparr>exit_stack := PyNone\<rparr>"
          passing_run "[Worker]"]
      guarded_check_and_stop [of "run passing_run to_guard example_executor" passing_run "[]"]
      guarded_check_and_stop [of "run passing_run to_loop example_executor" passing_run "[]"]
      guarded_check_and_stop [of "run passing_run to_install example_executor" passing_run "[]"]
    by simp
qed



subsection \<open>Finalization\<close>




text \<open>
  Claim C3, as stated, does not hold: the worker has no last-resort finalization. Here
  \<^verbatim>\<open>Stop()\<close> is called while a phase executes and the kill lands: the exception is no
  \<open>KeyboardInterrupt\<close>, the handler of line 181 lets it pass, and the worker ends with the
  test state it created still not finalized.
\<close>

theorem stopped_worker_ends_unfinalized:
  "pc (run one_phase_run stopped_in_loop example_executor) =
     Terminated (Some ThreadTerminationError) \<and>
   test_state (run one_phase_run stopped_in_loop example_executor) =
     Ref \<lparr>dut_id = None, running = True, derived = PASS, outcome = None\<rparr> \<and>
   finalizations (events (run one_phase_run stopped_in_loop example_executor)) = []"
  by (simp add: run_defs)

text \<open>
  Claim C3, amended. The worker finalizes the test state at two places only: when phase
  iteration runs to its end (line 180) and when a \<open>KeyboardInterrupt\<close> is caught during it
  (line 184). On any other way out the worker may end with the test state not finalized.
  For every run in which a test state was created, once the worker has terminated the
  executor's \<^verbatim>\<open>Finalize()\<close> returns the state finalized: as it is if it was finalized
  already, as ABORTED otherwise; after the call exactly one Finalize has taken effect.
\<close>

theorem finalize_entry_point_completes_record:
  assumes "s = run env sched (TestExecutor_init cfg d st td)"
  shows "(\<forall>x. finalizations (events (ThreadProc_step env x)) \<noteq> finalizations (events x) \<longrightarrow>
            pc x = L175 [] \<or> (\<exists>rest. pc x = L175 (Raises KeyboardInterrupt # rest))) \<and>
         (\<forall>ts. pc s = Terminated r \<and> test_state s = Ref ts \<longrightarrow>
            fst (Finalize s) =
              Inr (if is_finalized ts then ts else ts\<lparr>outcome := Some ABORTED\<rparr>) \<and>
            test_state (snd (Finalize s)) =
              Ref (if is_finalized ts then ts else ts\<lparr>outcome := Some ABORTED\<rparr>) \<and>
            length (finalizations (events (snd (Finalize s)))) = 1)"
proof -
  have inv: "finalize_inv s"
    unfolding assms by (rule finalize_inv_run) (rule invariants_init)
  have b: "fst (Finalize s) =
              Inr (if is_finalized ts then ts else ts\<lparr>outcome := Some ABORTED\<rparr>) \<and>
            test_state (snd (Finalize s)) =
              Ref (if is_finalized ts then ts else ts\<lparr>outcome := Some ABORTED\<rparr>) \<and>
            length (finalizations (events (snd (Finalize s)))) = 1"
    if "pc s = Terminated r \<and> test_state s = Ref ts" for ts
    using that inv
    by (auto simp: finalize_inv_def op_defs events_simps split: option.splits)
  from worker_finalizes_where b show ?thesis by blast
qed

theorem finalize_entry_point_completes_record_witness:
  "pc (run one_phase_run stopped_in_loop example_executor) =
     Terminated (Some ThreadTerminationError) \<and>
   test_state (run one_phase_run stopped_in_loop example_executor) =
     Ref \<lparr>dut_id = None, running = True, derived = PASS, outcome = None\<rparr> \<and>
   fst (Finalize (run one_phase_run stopped_in_loop example_executor)) =
     Inr \<lparr>dut_id = None, running = True, derived = PASS, outcome = Some ABORTED\<rparr> \<and>
   pc (run passing_run to_loop example_executor) = L175 [] \<and>
   finalizations (events (run passing_run to_loop example_executor)) = [] \<and>
   finalizations (events (ThreadProc_step passing_run
      (run passing_run to_loop example_executor))) = [PASS]"
proof -
  have a: "pc (run one_phase_run stopped_in_loop example_executor) =
     Terminated (Some ThreadTerminationError) \<and>
   test_state (run one_phase_run stopped_in_loop example_executor) =
     Ref \<lparr>dut_id = None, running = True, derived = PASS, outcome = None\<rparr>"
    by (simp add: run_defs)
  have b: "pc (run passing_run to_loop example_executor) = L175 [] \<and>
   finalizations (events (run passing_run to_loop example_executor)) = [] \<and>
   finalizations (events (ThreadProc_step passing_run
      (run passing_run to_loop example_executor))) = [PASS]"
    by (simp add: run_defs)
  have e: "run one_phase_run stopped_in_loop example_executor =
      run one_phase_run stopped_in_loop
        (TestExecutor_init default_conf example_descriptor None (Some (Descriptor example_teardown)))"
    by (simp only: example_executor_def)
  show ?thesis
    using a b
      finalize_entry_point_completes_record [OF e, of "Some ThreadTerminationError"]
    by (simp add: is_finalized_def)
qed

text \<open>
  Claim C7 says that a keyboard interrupt arriving while \<^verbatim>\<open>Wait()\<close> blocks always ends in
  the test state finalized as ABORTED and the interrupt raised again. The handler calls
  the test state's \<^verbatim>\<open>Finalize\<close> without the two checks the executor's \<^verbatim>\<open>Finalize()\<close> makes.
  When the worker has already finalized the state and is still busy with the teardown
  phase, that call fails and \<^verbatim>\<open>Wait()\<close> raises \<open>TestAlreadyFinalized\<close> in place of the
  interrupt; when the worker has not created the test state yet, \<^verbatim>\<open>Wait()\<close> raises
  \<open>AttributeError\<close> in place of the interrupt.
\<close>

theorem Wait_interrupted_after_finalize_raises:
  "pc (run passing_run to_teardown example_executor) = L189 \<and>
   test_state (run passing_run to_teardown example_executor) =
     Ref \<lparr>dut_id = None, running = True, derived = PASS, outcome = Some PASS\<rparr> \<and>
   Wait True (run passing_run to_teardown example_executor) =
     (Raised TestAlreadyFinalized, run passing_run to_teardown example_executor) \<and>
   pc (run passing_run to_install example_executor) = L119 \<and>
   test_state (run passing_run to_install example_executor) = PyNone \<and>
   Wait True (run passing_run to_install example_executor) =
     (Raised AttributeError, run passing_run to_install example_executor)"
  by (simp add: run_defs)

subsection \<open>The teardown phase\<close>

text \<open>
  Claim C5. For every teardown function supplied at construction, the timeout of the
  teardown phase the executor keeps is the configured \<^verbatim>\<open>teardown_timeout_s\<close>, whatever
  timeout the supplied phase declared; and every teardown phase a run executes carries
  that timeout.
\<close>

theorem teardown_timeout_is_configured_bound:
  "(\<exists>p. teardown_function (TestExecutor_init cfg d st (Some f)) = Some p \<and>
        func p = func (WrapOrCopy f) \<and>
        timeout_s (options p) = Some (teardown_timeout_s cfg)) \<and>
   (\<forall>p \<in> set (teardowns (events (run env sched (TestExecutor_init cfg d st (Some f))))).
        timeout_s (options p) = Some (teardown_timeout_s cfg))"
proof -
  let ?init = "TestExecutor_init cfg d st (Some f)"
  let ?p = "(WrapOrCopy f)\<lparr>options :=
             (options (WrapOrCopy f))\<lparr>timeout_s := Some (teardown_timeout_s cfg)\<rparr>\<rparr>"
  have c: "teardown_function ?init = Some ?p"
    by (simp add: TestExecutor_init_def)
  have p: "func ?p = func (WrapOrCopy f)" "timeout_s (options ?p) = Some (teardown_timeout_s cfg)"
    by simp_all
  have "teardown_inv (run env sched ?init)"
    by (rule teardown_inv_run) (rule invariants_init)
  then have "teardowns (events (run env sched ?init)) = [] \<or>
             teardowns (events (run env sched ?init)) = [?p]"
    by (simp add: teardown_inv_def teardown_function_run c)
  then have "\<forall>q \<in> set (teardowns (events (run env sched ?init))).
               timeout_s (options q) = Some (teardown_timeout_s cfg)"
    by auto
  with c p show ?thesis by blast
qed

theorem teardown_timeout_is_configured_bound_witness:
  "timeout_s (options example_teardown) = Some 60 \<and>
   teardown_timeout_s default_conf = 3 \<and>
   teardowns (events (run passing_run to_end example_executor)) =
     [\<lparr>func = ''teardown'', options = \<lparr>timeout_s = Some 3\<rparr>\<rparr>] \<and>
   timeout_s (options (hd (teardowns (events (run passing_run to_end example_executor))))) =
     Some (teardown_timeout_s default_conf)"
proof -
  have t: "teardowns (events (run passing_run to_end example_executor)) =
     [\<lparr>func = ''teardown'', options = \<lparr>timeout_s = Some 3\<rparr>\<rparr>]"
    by (simp add: run_defs)
  show ?thesis
    using t teardown_timeout_is_configured_bound
      [of default_conf example_descriptor None "Descriptor example_teardown" passing_run to_end]
    by (simp add: example_executor_def example_teardown_def default_conf_def)
qed




subsection \<open>Calls before the worker has begun\<close>

text \<open>
  Claim C8 says that \<^verbatim>\<open>GetState()\<close> never fails and returns none before a run starts.
  On a freshly constructed executor the attribute \<^verbatim>\<open>_test_state\<close> does not exist yet
  (it is first assigned at line 116, in the worker), so the call raises
  \<open>AttributeError\<close> instead of returning \<^verbatim>\<open>None\<close>.
\<close>

theorem GetState_before_start_raises:
  "GetState (TestExecutor_init cfg d st td) =
     (Inl AttributeError, TestExecutor_init cfg d st td)"
  by (simp add: GetState_def TestExecutor_init_def)

text \<open>
  Claim C9. For an executor whose worker has not yet begun its procedure (\<^verbatim>\<open>Start()\<close>
  not called, or the worker not yet past the attribute initialisation of lines 114 to
  117), \<^verbatim>\<open>Stop()\<close> reads the never-assigned \<^verbatim>\<open>_exit_stack\<close> and raises an attribute
  lookup error; nothing is closed and no kill is requested, the state is unchanged.
\<close>

theorem Stop_before_worker_init_raises:
  assumes "s = run env sched (TestExecutor_init cfg d st td)"
    and "pc s = NotStarted \<or> pc s = L114"
  shows "Stop s = (Some AttributeError, s)"
proof -
  have "attr_inv s"
    unfolding assms(1) by (rule attr_inv_run) (rule invariants_init)
  with assms(2) show ?thesis
    by (auto simp: attr_inv_def Stop_def)
qed

theorem Stop_before_worker_init_raises_witness:
  "pc example_executor = NotStarted \<and>
   Stop example_executor = (Some AttributeError, example_executor) \<and>
   pc (run passing_run [CallStart] example_executor) = L114 \<and>
   Stop (run passing_run [CallStart] example_executor) =
     (Some AttributeError, run passing_run [CallStart] example_executor)"
proof -
  have a: "pc example_executor = NotStarted"
    by (simp add: run_defs)
  have b: "pc (run passing_run [CallStart] example_executor) = L114"
    by (simp add: run_defs)
  have e0: "example_executor = run passing_run []
      (TestExecutor_init default_conf example_descriptor None
        (Some (Descriptor example_teardown)))"
    by (simp add: example_executor_def)
  have e1: "run passing_run [CallStart] example_executor =
      run passing_run [CallStart]
        (TestExecutor_init default_conf example_descriptor None (Some (Descriptor example_teardown)))"
    by (simp only: example_executor_def)
  show ?thesis
    using a b Stop_before_worker_init_raises [OF e0] Stop_before_worker_init_raises [OF e1]
    by simp
qed

end
